theory Spec2Isabelle
  imports Main "HOL-Library.AList"
begin

section \<open>Data model of chat-backend/main.py\<close>

text \<open>
  JSON values as \<^verbatim>\<open>json.loads\<close> returns them and \<^verbatim>\<open>send_json\<close> takes them. An object is
  the association list of its fields, read with \<open>map_of\<close>. Numbers are integers: the
  endpoint only compares a number with a string or looks it up among string keys, and a
  float behaves there as an integer does.
\<close>

datatype json =
    JNull
  | JBool bool
  | JNum int
  | JStr string
  | JArr "json list"
  | JObj "(string \<times> json) list"

text \<open>
  \<^verbatim>\<open>class ChatUser\<close>: the username and the connection. The class defines no \<^verbatim>\<open>__eq__\<close>,
  so Python compares two \<^verbatim>\<open>ChatUser\<close> objects by identity. The endpoint builds exactly
  one \<^verbatim>\<open>ChatUser\<close> per \<^verbatim>\<open>WebSocket\<close> object, so the field \<open>websocket\<close>, the number of
  the \<^verbatim>\<open>WebSocket\<close> object, stands for that identity.
\<close>

record ChatUser =
  username :: string
  websocket :: nat

text \<open>
  \<^verbatim>\<open>class PairingManager\<close>. \<^verbatim>\<open>active_pairs\<close> is a Python dict: an association list in
  insertion order, where assigning to a key that is present replaces the value in place
  (\<open>AList.update\<close>) and \<^verbatim>\<open>pop\<close> removes the entry (\<open>AList.delete\<close>).
\<close>

record PairingManager =
  waiting_users :: "ChatUser list"
  active_pairs :: "(string \<times> ChatUser list) list"

text \<open>The exceptions the modelled paths raise.\<close>

datatype py_error = JSONDecodeError | KeyError | TypeError | IndexError | RuntimeError

text \<open>
  What a handler does to a connection, in order. Only a send that returns is an effect.
  The functions below take the set \<open>dead\<close> of the connections that are closed: the
  peer has gone, or the endpoint has ended. A \<^verbatim>\<open>send_json\<close> on such a connection raises
  \<^verbatim>\<open>RuntimeError\<close> in the server, and no loop of the source guards its sends.
\<close>

datatype effect =
    Accept nat
  | Close nat nat
  | SendJson nat "(string \<times> json) list"

text \<open>The three outbound messages, field by field as the source builds them.\<close>

definition session_start_msg :: "string \<Rightarrow> string \<Rightarrow> (string \<times> json) list" where
  "session_start_msg session_id partner =
     [(''type'', JStr ''session_start''),
      (''session_id'', JStr session_id),
      (''partner'', JStr partner)]"

definition session_end_msg :: "string \<Rightarrow> (string \<times> json) list" where
  "session_end_msg session_id =
     [(''type'', JStr ''session_end''),
      (''session_id'', JStr session_id)]"

definition chat_message_msg :: "json \<Rightarrow> string \<Rightarrow> json \<Rightarrow> (string \<times> json) list" where
  "chat_message_msg session_id user content =
     [(''type'', JStr ''chat_message''),
      (''session_id'', session_id),
      (''user'', JStr user),
      (''message'', content)]"

section \<open>PairingManager\<close>

text \<open>
  \<^verbatim>\<open>users[1].username if user == users[0] else users[0].username\<close>, with the
  \<^verbatim>\<open>IndexError\<close> of a list that is too short.
\<close>

fun partner_name :: "ChatUser \<Rightarrow> ChatUser list \<Rightarrow> py_error + string" where
  "partner_name user [] = Inl IndexError"
| "partner_name user [u0] = (if user = u0 then Inl IndexError else Inr (username u0))"
| "partner_name user (u0 # u1 # rest) =
     (if user = u0 then Inr (username u1) else Inr (username u0))"

text \<open>
  The loop of \<^verbatim>\<open>start_session\<close> over \<^verbatim>\<open>users\<close>. The message is built, then sent; an
  exception ends the loop and keeps what was sent before it.
\<close>

fun start_session_loop ::
  "nat set \<Rightarrow> string \<Rightarrow> ChatUser list \<Rightarrow> ChatUser list \<Rightarrow> effect list \<times> py_error option"
  where
  "start_session_loop dead session_id users [] = ([], None)"
| "start_session_loop dead session_id users (user # rest) =
     (case partner_name user users of
        Inl e \<Rightarrow> ([], Some e)
      | Inr p \<Rightarrow>
          if websocket user \<in> dead then ([], Some RuntimeError)
          else
            (case start_session_loop dead session_id users rest of
               (out, err) \<Rightarrow>
                 (SendJson (websocket user) (session_start_msg session_id p) # out, err)))"

definition start_session ::
  "nat set \<Rightarrow> string \<Rightarrow> PairingManager \<Rightarrow> effect list \<times> py_error option" where
  "start_session dead session_id pm =
     (case map_of (active_pairs pm) session_id of
        None \<Rightarrow> ([], Some KeyError)
      | Some users \<Rightarrow> start_session_loop dead session_id users users)"

text \<open>
  \<^verbatim>\<open>add_user\<close> changes the waiting list and the registry first and calls
  \<^verbatim>\<open>start_session\<close> after, so an exception of a send leaves the new session registered.
\<close>

definition add_user ::
  "nat set \<Rightarrow> ChatUser \<Rightarrow> PairingManager \<Rightarrow>
     PairingManager \<times> effect list \<times> py_error option" where
  "add_user dead user pm =
     (case waiting_users pm of
        partner # rest \<Rightarrow>
          (let session_id = username user @ ''-'' @ username partner;
               pm' = pm\<lparr>waiting_users := rest,
                        active_pairs := AList.update session_id [user, partner] (active_pairs pm)\<rparr>
           in (pm', start_session dead session_id pm'))
      | [] \<Rightarrow> (pm\<lparr>waiting_users := waiting_users pm @ [user]\<rparr>, [], None))"

text \<open>
  The loop of \<^verbatim>\<open>end_session\<close> over the popped \<^verbatim>\<open>users\<close>: it stops at the first send that
  raises, and the members after it are sent nothing.
\<close>

fun end_session_loop ::
  "nat set \<Rightarrow> string \<Rightarrow> ChatUser list \<Rightarrow> effect list \<times> py_error option" where
  "end_session_loop dead session_id [] = ([], None)"
| "end_session_loop dead session_id (user # rest) =
     (if websocket user \<in> dead then ([], Some RuntimeError)
      else
        (case end_session_loop dead session_id rest of
           (out, err) \<Rightarrow>
             (SendJson (websocket user) (session_end_msg session_id) # out, err)))"

definition end_session ::
  "nat set \<Rightarrow> string \<Rightarrow> PairingManager \<Rightarrow>
     PairingManager \<times> effect list \<times> py_error option" where
  "end_session dead session_id pm =
     (case map_of (active_pairs pm) session_id of
        Some users \<Rightarrow>
          (pm\<lparr>active_pairs := AList.delete session_id (active_pairs pm)\<rparr>,
           end_session_loop dead session_id users)
      | None \<Rightarrow> (pm, [], None))"

section \<open>websocket\_endpoint\<close>

text \<open>
  What \<^verbatim>\<open>jwt.decode\<close> and \<^verbatim>\<open>payload.get("sub")\<close> give: the library raises \<^verbatim>\<open>JWTError\<close>, or
  the payload has no subject, or it has one.
\<close>

datatype jwt_result = JWTError | Payload "string option"

text \<open>
  A received text frame as \<^verbatim>\<open>json.loads\<close> sees it: text that is not JSON, or the parsed
  value.
\<close>

datatype frame = BadJson | Json json

text \<open>\<^verbatim>\<open>message[key]\<close> with a string key: only a dict can be subscripted so.\<close>

fun subscript :: "json \<Rightarrow> string \<Rightarrow> py_error + json" where
  "subscript (JObj obj) k = (case map_of obj k of None \<Rightarrow> Inl KeyError | Some v \<Rightarrow> Inr v)"
| "subscript _ k = Inl TypeError"

text \<open>
  A JSON value used as a key of \<^verbatim>\<open>active_pairs\<close>, whose keys are all strings: a list or a
  dict is unhashable (\<^verbatim>\<open>TypeError\<close>), a string is the key it spells, and any other value
  is hashable and equal to no string.
\<close>

fun as_key :: "json \<Rightarrow> py_error + string option" where
  "as_key (JStr k) = Inr (Some k)"
| "as_key (JArr _) = Inl TypeError"
| "as_key (JObj _) = Inl TypeError"
| "as_key _ = Inr None"

text \<open>
  The loop that relays a chat message to \<^verbatim>\<open>users\<close>. For every recipient the message is
  built first, which reads \<^verbatim>\<open>message["content"]\<close>, and then sent; the loop stops at the
  first exception.
\<close>

fun relay_loop ::
  "nat set \<Rightarrow> json \<Rightarrow> json \<Rightarrow> string \<Rightarrow> ChatUser list \<Rightarrow> effect list \<times> py_error option"
  where
  "relay_loop dead message session_id uname [] = ([], None)"
| "relay_loop dead message session_id uname (u # rest) =
     (case subscript message ''content'' of
        Inl e \<Rightarrow> ([], Some e)
      | Inr content \<Rightarrow>
          if websocket u \<in> dead then ([], Some RuntimeError)
          else
            (case relay_loop dead message session_id uname rest of
               (out, err) \<Rightarrow>
                 (SendJson (websocket u) (chat_message_msg session_id uname content) # out,
                  err)))"

text \<open>
  One pass of the \<^verbatim>\<open>while True\<close> body after \<^verbatim>\<open>receive_text\<close> has returned. The result is
  the manager, what was sent, and the exception that leaves the loop, if any. None of
  these exceptions is a \<^verbatim>\<open>WebSocketDisconnect\<close>, so none runs the handler at the end of
  the endpoint.
\<close>

definition on_message ::
  "nat set \<Rightarrow> ChatUser \<Rightarrow> frame \<Rightarrow> PairingManager \<Rightarrow>
     PairingManager \<times> effect list \<times> py_error option" where
  "on_message dead chat_user data pm =
     (case data of
        BadJson \<Rightarrow> (pm, [], Some JSONDecodeError)
      | Json message \<Rightarrow>
          (case subscript message ''type'' of
             Inl e \<Rightarrow> (pm, [], Some e)
           | Inr ty \<Rightarrow>
               if ty = JStr ''chat_message'' then
                 (case subscript message ''session_id'' of
                    Inl e \<Rightarrow> (pm, [], Some e)
                  | Inr session_id \<Rightarrow>
                      (case as_key session_id of
                         Inl e \<Rightarrow> (pm, [], Some e)
                       | Inr None \<Rightarrow> (pm, [], None)
                       | Inr (Some k) \<Rightarrow>
                           (case map_of (active_pairs pm) k of
                              None \<Rightarrow> (pm, [], None)
                            | Some users \<Rightarrow>
                                (pm, relay_loop dead message session_id (username chat_user)
                                       users))))
               else if ty = JStr ''end_session'' then
                 (case subscript message ''session_id'' of
                    Inl e \<Rightarrow> (pm, [], Some e)
                  | Inr session_id \<Rightarrow>
                      (case as_key session_id of
                         Inl e \<Rightarrow> (pm, [], Some e)
                       | Inr None \<Rightarrow> (pm, [], None)
                       | Inr (Some k) \<Rightarrow>
                           end_session dead k pm))
               else (pm, [], None)))"

text \<open>
  The \<^verbatim>\<open>except WebSocketDisconnect\<close> handler: the first session, in dict order, that holds
  \<^verbatim>\<open>chat_user\<close> is ended, then \<^verbatim>\<open>chat_user\<close> is taken off the waiting list. An exception
  of \<^verbatim>\<open>end_session\<close> leaves the handler before the waiting list is looked at.
\<close>

fun find_session :: "ChatUser \<Rightarrow> (string \<times> ChatUser list) list \<Rightarrow> string option" where
  "find_session chat_user [] = None"
| "find_session chat_user ((session_id, users) # rest) =
     (if chat_user \<in> set users then Some session_id else find_session chat_user rest)"

definition on_disconnect ::
  "nat set \<Rightarrow> ChatUser \<Rightarrow> PairingManager \<Rightarrow>
     PairingManager \<times> effect list \<times> py_error option" where
  "on_disconnect dead chat_user pm =
     (case (case find_session chat_user (active_pairs pm) of
              Some session_id \<Rightarrow> end_session dead session_id pm
            | None \<Rightarrow> (pm, [], None)) of
        (pm1, out, Some e) \<Rightarrow> (pm1, out, Some e)
      | (pm1, out, None) \<Rightarrow>
          (if chat_user \<in> set (waiting_users pm1)
           then pm1\<lparr>waiting_users := remove1 chat_user (waiting_users pm1)\<rparr>
           else pm1,
           out, None))"

text \<open>
  The endpoint up to the loop, for the \<^verbatim>\<open>WebSocket\<close> object numbered \<open>ws\<close>: the fourth
  component is the \<^verbatim>\<open>ChatUser\<close> whose loop starts, if one does. \<^verbatim>\<open>add_user\<close> is called
  outside the \<^verbatim>\<open>try\<close>, so an exception of it ends the endpoint before the loop.
\<close>

definition on_connect ::
  "nat set \<Rightarrow> jwt_result \<Rightarrow> nat \<Rightarrow> PairingManager \<Rightarrow>
     PairingManager \<times> effect list \<times> py_error option \<times> ChatUser option" where
  "on_connect dead tok ws pm =
     (case tok of
        JWTError \<Rightarrow> (pm, [Close ws 1008], None, None)
      | Payload None \<Rightarrow> (pm, [Close ws 1008], None, None)
      | Payload (Some uname) \<Rightarrow>
          (let chat_user = \<lparr>username = uname, websocket = ws\<rparr> in
           case add_user dead chat_user pm of
             (pm', out, err) \<Rightarrow>
               (pm', Accept ws # out, err,
                (case err of None \<Rightarrow> Some chat_user | Some _ \<Rightarrow> None))))"

section \<open>The server as a transition system\<close>

text \<open>
  The process state: the global \<^verbatim>\<open>pairing_manager\<close>, the number of \<^verbatim>\<open>WebSocket\<close> objects
  the framework has created so far (the next one gets this number), the \<^verbatim>\<open>ChatUser\<close>s
  whose endpoint is inside its receive loop, and the connections that are closed. A
  connection is closed when the endpoint closes it, when the peer disconnects, and when
  the endpoint ends with an exception. Every mutation of the manager happens between
  two \<^verbatim>\<open>await\<close>s, so each event below is one atomic step.
\<close>

record server =
  manager :: PairingManager
  sockets :: nat
  looping :: "ChatUser list"
  closed :: "nat set"

datatype event =
    Connect jwt_result
  | Receive ChatUser frame
  | Disconnect ChatUser

definition initial :: server where
  "initial =
     \<lparr>manager = \<lparr>waiting_users = [], active_pairs = []\<rparr>, sockets = 0, looping = [],
      closed = {}\<rparr>"

fun step :: "event \<Rightarrow> server \<Rightarrow> server \<times> effect list" where
  "step (Connect tok) s =
     (case on_connect (closed s) tok (sockets s) (manager s) of
        (pm, out, err, started) \<Rightarrow>
          (\<lparr>manager = pm, sockets = Suc (sockets s),
            looping = (case started of Some u \<Rightarrow> looping s @ [u] | None \<Rightarrow> looping s),
            closed = (case started of Some u \<Rightarrow> closed s
                      | None \<Rightarrow> insert (sockets s) (closed s))\<rparr>,
           out))"
| "step (Receive u data) s =
     (if u \<in> set (looping s) then
        (case on_message (closed s) u data (manager s) of
           (pm, out, err) \<Rightarrow>
             (s\<lparr>manager := pm,
                looping := (case err of None \<Rightarrow> looping s | Some _ \<Rightarrow> remove1 u (looping s)),
                closed := (case err of None \<Rightarrow> closed s
                           | Some _ \<Rightarrow> insert (websocket u) (closed s))\<rparr>,
              out))
      else (s, []))"
| "step (Disconnect u) s =
     (if u \<in> set (looping s) then
        (case on_disconnect (insert (websocket u) (closed s)) u (manager s) of
           (pm, out, err) \<Rightarrow>
             (s\<lparr>manager := pm, looping := remove1 u (looping s),
                closed := insert (websocket u) (closed s)\<rparr>,
              out))
      else (s, []))"

fun run :: "event list \<Rightarrow> server \<Rightarrow> server \<times> effect list" where
  "run [] s = (s, [])"
| "run (e # es) s =
     (case step e s of (s1, out1) \<Rightarrow> (case run es s1 of (s2, out2) \<Rightarrow> (s2, out1 @ out2)))"

inductive reachable :: "server \<Rightarrow> bool" where
  reachable_initial: "reachable initial"
| reachable_step: "reachable s \<Longrightarrow> reachable (fst (step e s))"

text \<open>All clients the manager holds: the waiting list, then the members of each session.\<close>

definition members :: "(string \<times> ChatUser list) list \<Rightarrow> ChatUser list" where
  "members pairs = concat (map snd pairs)"

definition clients :: "PairingManager \<Rightarrow> ChatUser list" where
  "clients pm = waiting_users pm @ members (active_pairs pm)"

text \<open>
  Every client the manager holds is held once, on a connection of its own, and that
  connection is one the framework has already created.
\<close>

definition fresh_inv :: "server \<Rightarrow> bool" where
  "fresh_inv s \<longleftrightarrow>
     distinct (clients (manager s)) \<and>
     inj_on websocket (set (clients (manager s))) \<and>
     (\<forall>c \<in> set (clients (manager s)). websocket c < sockets s)"

section \<open>Example values\<close>

definition user_a :: ChatUser where
  "user_a = \<lparr>username = ''a'', websocket = 0\<rparr>"

definition user_b :: ChatUser where
  "user_b = \<lparr>username = ''b'', websocket = 1\<rparr>"

definition pm_empty :: PairingManager where
  "pm_empty = \<lparr>waiting_users = [], active_pairs = []\<rparr>"

definition pm_waiting :: PairingManager where
  "pm_waiting = \<lparr>waiting_users = [user_a], active_pairs = []\<rparr>"

definition pm_paired :: PairingManager where
  "pm_paired = \<lparr>waiting_users = [], active_pairs = [(''b-a'', [user_b, user_a])]\<rparr>"

definition hi_message :: json where
  "hi_message =
     JObj [(''type'', JStr ''chat_message''), (''session_id'', JStr ''b-a''),
           (''content'', JStr ''hi'')]"


definition spoofed_message :: json where
  "spoofed_message =
     JObj [(''user'', JStr ''b''), (''type'', JStr ''chat_message''),
           (''session_id'', JStr ''b-a''), (''content'', JStr ''hi''),
           (''username'', JStr ''b'')]"

definition connect_a_b_c :: "event list" where
  "connect_a_b_c =
     [Connect (Payload (Some ''a'')), Connect (Payload (Some ''b'')),
      Connect (Payload (Some ''c''))]"

definition connect_a_b :: "event list" where
  "connect_a_b = [Connect (Payload (Some ''a'')), Connect (Payload (Some ''b''))]"

lemmas example_defs =
  user_a_def user_b_def pm_empty_def pm_waiting_def pm_paired_def hi_message_def

section \<open>Pairing\<close>

lemma start_session_loop_pair:
  "start_session_loop dead sid [u, p] [u, p] =
     (if websocket u \<in> dead then ([], Some RuntimeError)
      else if websocket p \<in> dead
        then ([SendJson (websocket u) (session_start_msg sid (username p))], Some RuntimeError)
        else ([SendJson (websocket u) (session_start_msg sid (username p)),
               SendJson (websocket p) (session_start_msg sid (username u))], None))"
  by simp

lemma add_user_nonempty:
  "waiting_users pm = partner # rest \<Longrightarrow>
   add_user dead user pm =
     (pm\<lparr>waiting_users := rest,
         active_pairs :=
           AList.update (username user @ ''-'' @ username partner) [user, partner]
             (active_pairs pm)\<rparr>,
      start_session_loop dead (username user @ ''-'' @ username partner)
        [user, partner] [user, partner])"
  unfolding add_user_def start_session_def by (simp add: update_conv' Let_def)

lemma add_user_empty:
  "waiting_users pm = [] \<Longrightarrow>
   add_user dead user pm = (pm\<lparr>waiting_users := [user]\<rparr>, [], None)"
  unfolding add_user_def by simp

text \<open>
  C1. When the waiting list is non-empty, \<open>add_user\<close> removes its head and registers a
  session whose member list is the arriving client and that head, and nothing else of
  the waiting list changes; when the waiting list is empty, the arriving client is
  appended to it, the registry is unchanged and nothing is sent.
\<close>

theorem add_user_pairs_or_enqueues:
  "(waiting_users pm = partner # rest \<longrightarrow>
      waiting_users (fst (add_user dead user pm)) = rest \<and>
      active_pairs (fst (add_user dead user pm)) =
        AList.update (username user @ ''-'' @ username partner) [user, partner]
          (active_pairs pm) \<and>
      map_of (active_pairs (fst (add_user dead user pm)))
          (username user @ ''-'' @ username partner) =
        Some [user, partner])
   \<and> (waiting_users pm = [] \<longrightarrow>
      waiting_users (fst (add_user dead user pm)) = [user] \<and>
      active_pairs (fst (add_user dead user pm)) = active_pairs pm \<and>
      snd (add_user dead user pm) = ([], None))"
  by (simp add: add_user_nonempty add_user_empty update_conv' del: start_session_loop.simps)

theorem add_user_pairs_or_enqueues_witness:
  "waiting_users pm_waiting = user_a # [] \<and>
   waiting_users (fst (add_user {} user_b pm_waiting)) = [] \<and>
   active_pairs (fst (add_user {} user_b pm_waiting)) = [(''b-a'', [user_b, user_a])] \<and>
   waiting_users pm_empty = [] \<and>
   waiting_users (fst (add_user {} user_a pm_empty)) = [user_a] \<and>
   active_pairs (fst (add_user {} user_a pm_empty)) = [] \<and>
   snd (add_user {} user_a pm_empty) = ([], None)"
  using add_user_pairs_or_enqueues [of pm_waiting user_a "[]" "{}" user_b]
    add_user_pairs_or_enqueues [of pm_empty user_a "[]" "{}" user_a]
  by (simp add: example_defs)

text \<open>
  C2, as the code has it. The \<open>session_start\<close> notifications of a match go first to the
  arriving client, naming the waiting head, and then to the waiting head, naming the
  arriving client: each member is told the other member's identity and no third one.
  Both are sent when neither connection is closed; a send on a closed connection raises
  and ends the loop. On two distinct connections, the name a member is told differs
  from the member's own identity whenever the two identities differ.
\<close>

theorem session_start_names_other_member:
  "waiting_users pm = partner # rest \<longrightarrow>
     snd (add_user dead user pm) =
       (if websocket user \<in> dead then ([], Some RuntimeError)
        else if websocket partner \<in> dead then
          ([SendJson (websocket user)
              [(''type'', JStr ''session_start''),
               (''session_id'', JStr (username user @ ''-'' @ username partner)),
               (''partner'', JStr (username partner))]],
           Some RuntimeError)
        else
          ([SendJson (websocket user)
              [(''type'', JStr ''session_start''),
               (''session_id'', JStr (username user @ ''-'' @ username partner)),
               (''partner'', JStr (username partner))],
            SendJson (websocket partner)
              [(''type'', JStr ''session_start''),
               (''session_id'', JStr (username user @ ''-'' @ username partner)),
               (''partner'', JStr (username user))]],
           None)) \<and>
     (websocket user \<noteq> websocket partner \<and> username user \<noteq> username partner \<longrightarrow>
        (\<forall>ws msg. SendJson ws msg \<in> set (fst (snd (add_user dead user pm))) \<longrightarrow>
           (ws = websocket user \<longrightarrow>
              map_of msg ''partner'' = Some (JStr (username partner)) \<and>
              map_of msg ''partner'' \<noteq> Some (JStr (username user))) \<and>
           (ws = websocket partner \<longrightarrow>
              map_of msg ''partner'' = Some (JStr (username user)) \<and>
              map_of msg ''partner'' \<noteq> Some (JStr (username partner)))))"
  by (auto simp add: add_user_nonempty start_session_loop_pair session_start_msg_def
      simp del: start_session_loop.simps)

theorem session_start_names_other_member_witness:
  "waiting_users pm_waiting = user_a # [] \<and>
   websocket user_b \<noteq> websocket user_a \<and>
   username user_b \<noteq> username user_a \<and>
   snd (add_user {} user_b pm_waiting) =
     ([SendJson 1
         [(''type'', JStr ''session_start''), (''session_id'', JStr ''b-a''),
          (''partner'', JStr ''a'')],
       SendJson 0
         [(''type'', JStr ''session_start''), (''session_id'', JStr ''b-a''),
          (''partner'', JStr ''b'')]],
      None)"
  using session_start_names_other_member [of pm_waiting user_a "[]" "{}" user_b]
  by (simp add: example_defs)

text \<open>
  C2 as stated fails when one identity holds two connections: the second connection of
  \<open>alice\<close> is matched with the first, and the notification sent on websocket 1, whose
  own identity is \<open>alice\<close>, names \<open>alice\<close> as partner.
\<close>

theorem partner_is_own_identity_counterexample:
  "SendJson 1
     [(''type'', JStr ''session_start''), (''session_id'', JStr ''alice-alice''),
      (''partner'', JStr (username \<lparr>username = ''alice'', websocket = 1\<rparr>))]
   \<in> set (snd (run [Connect (Payload (Some ''alice'')), Connect (Payload (Some ''alice''))]
                 initial))"
  by (simp add: initial_def on_connect_def add_user_def start_session_def
      session_start_msg_def Let_def)

text \<open>
  C8, as the code has it. The session id is the arriving identity, a hyphen and the
  waiting head's identity. Formation has no collision check and never picks another id:
  before anything is sent, the new member list is stored under that id, replacing
  whatever the id was mapped to, and the registry's keys change only by gaining the id
  when it was absent. The only exception of a formation is that of a send on a closed
  connection, after the session is registered.
\<close>

theorem session_id_replaces_on_collision:
  "waiting_users pm = partner # rest \<longrightarrow>
     map_of (active_pairs (fst (add_user dead user pm))) =
       (map_of (active_pairs pm))
         (username user @ ''-'' @ username partner \<mapsto> [user, partner]) \<and>
     snd (snd (add_user dead user pm)) =
       (if websocket user \<in> dead \<or> websocket partner \<in> dead
        then Some RuntimeError else None) \<and>
     map fst (active_pairs (fst (add_user dead user pm))) =
       (if username user @ ''-'' @ username partner \<in> set (map fst (active_pairs pm))
        then map fst (active_pairs pm)
        else map fst (active_pairs pm) @ [username user @ ''-'' @ username partner])"
  by (simp add: add_user_nonempty start_session_loop_pair update_conv' update_keys
      del: start_session_loop.simps)

theorem session_id_replaces_on_collision_witness:
  "waiting_users (pm_paired\<lparr>waiting_users := [user_a]\<rparr>) = user_a # [] \<and>
   map_of (active_pairs (fst (add_user {} user_b (pm_paired\<lparr>waiting_users := [user_a]\<rparr>)))) =
     (map_of (active_pairs pm_paired))(''b-a'' \<mapsto> [user_b, user_a]) \<and>
   snd (snd (add_user {} user_b (pm_paired\<lparr>waiting_users := [user_a]\<rparr>))) = None \<and>
   map fst (active_pairs (fst (add_user {} user_b (pm_paired\<lparr>waiting_users := [user_a]\<rparr>)))) =
     [''b-a'']"
  using session_id_replaces_on_collision
    [of "pm_paired\<lparr>waiting_users := [user_a]\<rparr>" user_a "[]" "{}" user_b]
  by (simp add: example_defs)

text \<open>
  C8 as stated fails: \<open>a\<close> and \<open>b\<close> are paired under \<open>b-a\<close>, then a second connection
  of each arrives. While \<open>b-a\<close> is still mapped to the first pair, the second match
  derives the same id, raises nothing, and the registry then maps \<open>b-a\<close> to the
  second pair only.
\<close>

theorem session_id_collision_counterexample:
  "map_of (active_pairs (manager (fst (run
       [Connect (Payload (Some ''a'')), Connect (Payload (Some ''b'')),
        Connect (Payload (Some ''a''))] initial)))) ''b-a'' =
     Some [\<lparr>username = ''b'', websocket = 1\<rparr>, \<lparr>username = ''a'', websocket = 0\<rparr>] \<and>
   add_user {} \<lparr>username = ''b'', websocket = 3\<rparr> (manager (fst (run
       [Connect (Payload (Some ''a'')), Connect (Payload (Some ''b'')),
        Connect (Payload (Some ''a''))] initial))) =
     (\<lparr>waiting_users = [],
       active_pairs =
         [(''b-a'', [\<lparr>username = ''b'', websocket = 3\<rparr>, \<lparr>username = ''a'', websocket = 2\<rparr>])]\<rparr>,
      [SendJson 3 (session_start_msg ''b-a'' ''a''), SendJson 2 (session_start_msg ''b-a'' ''b'')],
      None)"
  by (simp add: initial_def on_connect_def add_user_def start_session_def Let_def)

section \<open>Relay\<close>


lemma relay_loop_no_content:
  "subscript message ''content'' = Inl e \<Longrightarrow>
   relay_loop dead message sidv un users =
     ([], case users of [] \<Rightarrow> None | x # xs \<Rightarrow> Some e)"
  by (cases users) simp_all

lemma relay_loop_cong:
  "subscript m2 ''content'' = subscript m1 ''content'' \<Longrightarrow>
   relay_loop dead m2 sidv un users = relay_loop dead m1 sidv un users"
  by (induction users) (simp_all split: sum.splits)

lemma relay_loop_user:
  "e \<in> set (fst (relay_loop dead message sidv un users)) \<Longrightarrow>
   \<exists>ws c. e = SendJson ws (chat_message_msg sidv un c)"
  by (induction users) (auto split: sum.splits prod.splits if_splits)




text \<open>
  C6, as the code has it. A \<open>chat_message\<close> whose session id is null, a boolean, a
  number, or a string that the registry does not map is dropped: the manager is
  unchanged, nothing is sent and no exception leaves the loop. The code has no error
  value and no log for this case; the unknown session is the branch of the membership
  test that does nothing. A session id that is a list or an object cannot be hashed:
  the membership test raises \<open>TypeError\<close>, which ends the loop, and again the manager
  is unchanged and nothing is sent.
\<close>

theorem relay_unknown_session_dropped:
  assumes "subscript message ''type'' = Inr (JStr ''chat_message'')"
    and "subscript message ''session_id'' = Inr v"
  shows "(v = JNull \<or> (\<exists>b. v = JBool b) \<or> (\<exists>n. v = JNum n) \<or>
            (\<exists>k. v = JStr k \<and> map_of (active_pairs pm) k = None) \<longrightarrow>
            on_message dead u (Json message) pm = (pm, [], None)) \<and>
         ((\<exists>xs. v = JArr xs) \<or> (\<exists>obj. v = JObj obj) \<longrightarrow>
            on_message dead u (Json message) pm = (pm, [], Some TypeError))"
  using assms unfolding on_message_def by auto

theorem relay_unknown_session_dropped_witness:
  "subscript hi_message ''type'' = Inr (JStr ''chat_message'') \<and>
   subscript hi_message ''session_id'' = Inr (JStr ''b-a'') \<and>
   map_of (active_pairs pm_waiting) ''b-a'' = None \<and>
   on_message {} user_a (Json hi_message) pm_waiting = (pm_waiting, [], None) \<and>
   on_message {} user_a
       (Json (JObj [(''type'', JStr ''chat_message''), (''session_id'', JNum 7),
                    (''content'', JStr ''hi'')])) pm_paired =
     (pm_paired, [], None) \<and>
   on_message {} user_a
       (Json (JObj [(''type'', JStr ''chat_message''), (''session_id'', JObj []),
                    (''content'', JStr ''hi'')])) pm_paired =
     (pm_paired, [], Some TypeError)"
  using relay_unknown_session_dropped [of hi_message "JStr ''b-a''" pm_waiting "{}" user_a]
    relay_unknown_session_dropped
      [of "JObj [(''type'', JStr ''chat_message''), (''session_id'', JNum 7),
                 (''content'', JStr ''hi'')]" "JNum 7" pm_paired "{}" user_a]
    relay_unknown_session_dropped
      [of "JObj [(''type'', JStr ''chat_message''), (''session_id'', JObj []),
                 (''content'', JStr ''hi'')]" "JObj []" pm_paired "{}" user_a]
  by (simp add: example_defs)

text \<open>
  C6 as stated fails: a \<open>chat_message\<close> whose session id is the empty list names no
  registered session, yet the membership test raises \<open>TypeError\<close> and the loop of the
  sender ends.
\<close>

theorem unhashable_session_id_counterexample:
  "on_message {} user_a
       (Json (JObj [(''type'', JStr ''chat_message''), (''session_id'', JArr []),
                    (''content'', JStr ''hi'')])) pm_paired =
     (pm_paired, [], Some TypeError) \<and>
   looping (fst (run
       [Connect (Payload (Some ''a'')),
        Receive user_a
          (Json (JObj [(''type'', JStr ''chat_message''), (''session_id'', JArr []),
                       (''content'', JStr ''hi'')]))] initial)) = []"
  by (simp add: example_defs initial_def on_connect_def add_user_def on_message_def Let_def)

text \<open>
  C10. The \<open>user\<close> field of every relayed message is the username of the connection's
  \<open>ChatUser\<close>, which is the subject of the token the connection was opened with. Two
  inbound messages that agree on \<open>type\<close>, \<open>session_id\<close> and \<open>content\<close> are handled
  identically on one connection, whatever else they contain.
\<close>

theorem relay_user_is_connection_identity:
  assumes "subscript m1 ''type'' = Inr (JStr ''chat_message'')"
    and "subscript m2 ''type'' = subscript m1 ''type''"
    and "subscript m2 ''session_id'' = subscript m1 ''session_id''"
    and "subscript m2 ''content'' = subscript m1 ''content''"
    and "on_connect dead0 tok ws pm0 = (pm1, out, err, Some u)"
  shows "tok = Payload (Some (username u)) \<and>
         on_message dead u (Json m2) pm = on_message dead u (Json m1) pm \<and>
         (\<forall>e \<in> set (fst (snd (on_message dead u (Json m1) pm))).
            \<exists>w msg. e = SendJson w msg \<and> map_of msg ''user'' = Some (JStr (username u)))"
proof (intro conjI)
  show "tok = Payload (Some (username u))"
    using assms(5) unfolding on_connect_def
    by (auto simp: Let_def split: jwt_result.splits option.splits prod.splits)
next
  show "on_message dead u (Json m2) pm = on_message dead u (Json m1) pm"
    using assms(1-4) relay_loop_cong [OF assms(4)] unfolding on_message_def
    by (simp split: sum.splits option.splits)
next
  show "\<forall>e \<in> set (fst (snd (on_message dead u (Json m1) pm))).
          \<exists>w msg. e = SendJson w msg \<and> map_of msg ''user'' = Some (JStr (username u))"
    using assms(1) unfolding on_message_def
    by (auto split: sum.splits option.splits dest!: relay_loop_user
        simp: chat_message_msg_def)
qed

theorem relay_user_is_connection_identity_witness:
  "on_connect {} (Payload (Some ''a'')) 0 pm_empty =
     (pm_waiting, [Accept 0], None, Some user_a) \<and>
   on_message {} user_a (Json spoofed_message) pm_paired =
     on_message {} user_a (Json hi_message) pm_paired \<and>
   fst (snd (on_message {} user_a (Json hi_message) pm_paired)) =
     [SendJson 1 (chat_message_msg (JStr ''b-a'') ''a'' (JStr ''hi'')),
      SendJson 0 (chat_message_msg (JStr ''b-a'') ''a'' (JStr ''hi''))]"
  using relay_user_is_connection_identity
    [of hi_message spoofed_message "{}" "Payload (Some ''a'')" 0 pm_empty pm_waiting
        "[Accept 0]" None user_a "{}" pm_paired]
  by (simp add: example_defs spoofed_message_def on_connect_def add_user_def
      on_message_def chat_message_msg_def Let_def)

section \<open>Malformed messages\<close>

text \<open>
  C5, as the code has it. A message that is unparseable, lacks a required field or has
  an unrecognised type never changes the manager and sends nothing. The loop goes on
  when the message is an object whose \<open>type\<close> is neither \<open>chat_message\<close> nor
  \<open>end_session\<close>. Text that is not JSON raises \<open>JSONDecodeError\<close>; a value that is
  not an object raises \<open>TypeError\<close>; an object without \<open>type\<close>, and a \<open>chat_message\<close>
  or \<open>end_session\<close> without \<open>session_id\<close>, raise \<open>KeyError\<close>. For a \<open>chat_message\<close>
  without \<open>content\<close> the session id decides: a list or an object raises \<open>TypeError\<close>;
  null, a boolean, a number, and a string that is not registered or is registered with
  no member let the loop go on, since the content is never read; a string registered
  with a member raises \<open>KeyError\<close>. The endpoint catches only \<open>WebSocketDisconnect\<close>,
  so each of these exceptions ends the connection's loop.
\<close>

theorem malformed_message_effect:
  "on_message dead u BadJson pm = (pm, [], Some JSONDecodeError) \<and>
   ((\<forall>fs. message \<noteq> JObj fs) \<longrightarrow>
      on_message dead u (Json message) pm = (pm, [], Some TypeError)) \<and>
   (map_of obj ''type'' = None \<longrightarrow>
      on_message dead u (Json (JObj obj)) pm = (pm, [], Some KeyError)) \<and>
   (map_of obj ''type'' = Some ty \<and> ty \<noteq> JStr ''chat_message'' \<and>
      ty \<noteq> JStr ''end_session'' \<longrightarrow>
      on_message dead u (Json (JObj obj)) pm = (pm, [], None)) \<and>
   (map_of obj ''type'' = Some ty \<and>
      (ty = JStr ''chat_message'' \<or> ty = JStr ''end_session'') \<and>
      map_of obj ''session_id'' = None \<longrightarrow>
      on_message dead u (Json (JObj obj)) pm = (pm, [], Some KeyError)) \<and>
   (map_of obj ''type'' = Some (JStr ''chat_message'') \<and>
      map_of obj ''session_id'' = Some v \<and>
      map_of obj ''content'' = None \<longrightarrow>
      on_message dead u (Json (JObj obj)) pm =
        (pm, [],
         case v of
           JArr xs \<Rightarrow> Some TypeError
         | JObj fs \<Rightarrow> Some TypeError
         | JStr k \<Rightarrow>
             (case map_of (active_pairs pm) k of
                Some (x # xs) \<Rightarrow> Some KeyError
              | _ \<Rightarrow> None)
         | _ \<Rightarrow> None))"
proof -
  have not_object: "on_message dead u (Json message) pm = (pm, [], Some TypeError)"
    if "\<forall>fs. message \<noteq> JObj fs"
    using that unfolding on_message_def by (cases message) simp_all
  have no_content: "relay_loop dead (JObj obj) sidv un users =
      ([], case users of [] \<Rightarrow> None | x # xs \<Rightarrow> Some KeyError)"
    if "map_of obj ''content'' = None" for sidv un users
    using that by (intro relay_loop_no_content) simp
  show ?thesis
    using not_object no_content unfolding on_message_def
    by (auto split: option.splits list.splits json.splits simp del: relay_loop.simps)
qed

theorem malformed_message_effect_witness:
  "on_message {} user_a BadJson pm_paired = (pm_paired, [], Some JSONDecodeError) \<and>
   on_message {} user_a (Json (JArr [])) pm_paired = (pm_paired, [], Some TypeError) \<and>
   on_message {} user_a (Json (JObj [(''content'', JStr ''hi'')])) pm_paired =
     (pm_paired, [], Some KeyError) \<and>
   on_message {} user_a (Json (JObj [(''type'', JStr ''ping'')])) pm_paired =
     (pm_paired, [], None) \<and>
   on_message {} user_a (Json (JObj [(''type'', JStr ''end_session'')])) pm_paired =
     (pm_paired, [], Some KeyError) \<and>
   on_message {} user_a
       (Json (JObj [(''type'', JStr ''chat_message''), (''session_id'', JStr ''b-a'')]))
       pm_paired =
     (pm_paired, [], Some KeyError) \<and>
   on_message {} user_a
       (Json (JObj [(''type'', JStr ''chat_message''), (''session_id'', JStr ''b-a'')]))
       pm_waiting =
     (pm_waiting, [], None) \<and>
   on_message {} user_a
       (Json (JObj [(''type'', JStr ''chat_message''), (''session_id'', JArr [])]))
       pm_paired =
     (pm_paired, [], Some TypeError) \<and>
   on_message {} user_a
       (Json (JObj [(''type'', JStr ''chat_message''), (''session_id'', JNum 7)]))
       pm_paired =
     (pm_paired, [], None)"
  using malformed_message_effect
      [where dead = "{}" and u = user_a and pm = pm_paired and message = "JArr []"
         and obj = "[(''content'', JStr ''hi'')]"]
    malformed_message_effect
      [where dead = "{}" and u = user_a and pm = pm_paired
         and obj = "[(''type'', JStr ''ping'')]" and ty = "JStr ''ping''"]
    malformed_message_effect
      [where dead = "{}" and u = user_a and pm = pm_paired
         and obj = "[(''type'', JStr ''end_session'')]" and ty = "JStr ''end_session''"]
    malformed_message_effect
      [where dead = "{}" and u = user_a and pm = pm_paired
         and obj = "[(''type'', JStr ''chat_message''), (''session_id'', JStr ''b-a'')]"
         and v = "JStr ''b-a''"]
    malformed_message_effect
      [where dead = "{}" and u = user_a and pm = pm_waiting
         and obj = "[(''type'', JStr ''chat_message''), (''session_id'', JStr ''b-a'')]"
         and v = "JStr ''b-a''"]
    malformed_message_effect
      [where dead = "{}" and u = user_a and pm = pm_paired
         and obj = "[(''type'', JStr ''chat_message''), (''session_id'', JArr [])]"
         and v = "JArr []"]
    malformed_message_effect
      [where dead = "{}" and u = user_a and pm = pm_paired
         and obj = "[(''type'', JStr ''chat_message''), (''session_id'', JNum 7)]"
         and v = "JNum 7"]
  by (simp add: example_defs)

text \<open>
  C5 as stated fails: on a paired connection, text that is not JSON raises
  \<open>JSONDecodeError\<close> out of the loop, and in the server the connection of \<open>a\<close> is no
  longer looping after it, while \<open>a\<close> is still on the waiting list.
\<close>

theorem unparseable_message_counterexample:
  "snd (snd (on_message {} user_a BadJson pm_paired)) = Some JSONDecodeError \<and>
   fst (run [Connect (Payload (Some ''a'')), Receive user_a BadJson] initial) =
     \<lparr>manager = pm_waiting, sockets = 1, looping = [], closed = {0}\<rparr>"
  by (simp add: example_defs initial_def on_message_def on_connect_def add_user_def Let_def)

section \<open>Clients held by the manager\<close>

lemma members_Nil: "members [] = []"
  by (simp add: members_def)

lemma members_Cons: "members (p # ps) = snd p @ members ps"
  by (simp add: members_def)

lemma members_update_subset:
  "set (members (AList.update k v ps)) \<subseteq> set v \<union> set (members ps)"
  by (induction ps) (auto simp: members_Nil members_Cons)

lemma members_delete_subset:
  "set (members (AList.delete k ps)) \<subseteq> set (members ps)"
  by (induction ps) (auto simp: members_Nil members_Cons)

lemma distinct_members_update:
  "distinct (members ps) \<Longrightarrow> distinct v \<Longrightarrow> set v \<inter> set (members ps) = {} \<Longrightarrow>
   distinct (members (AList.update k v ps))"
proof (induction ps)
  case Nil
  then show ?case by (simp add: members_Nil members_Cons)
next
  case (Cons p ps)
  show ?case
  proof (cases "fst p = k")
    case True
    with Cons.prems show ?thesis by (auto simp: members_Cons)
  next
    case False
    have d: "distinct (members (AList.update k v ps))"
      using Cons by (auto simp: members_Cons)
    have "set (snd p) \<inter> (set v \<union> set (members ps)) = {}"
      using Cons.prems by (auto simp: members_Cons)
    then have "set (snd p) \<inter> set (members (AList.update k v ps)) = {}"
      using members_update_subset [of k v ps] by blast
    with d False Cons.prems show ?thesis by (simp add: members_Cons)
  qed
qed

lemma distinct_members_delete:
  "distinct (members ps) \<Longrightarrow> distinct (members (AList.delete k ps))"
proof (induction ps)
  case Nil
  then show ?case by simp
next
  case (Cons p ps)
  have "set (snd p) \<inter> set (members ps) = {}"
    using Cons.prems by (simp add: members_Cons)
  then have "set (snd p) \<inter> set (members (AList.delete k ps)) = {}"
    using members_delete_subset [of k ps] by blast
  with Cons show ?case by (simp add: members_Cons)
qed

lemma end_session_manager:
  "fst (end_session dead sid pm) = pm \<or>
   fst (end_session dead sid pm) = pm\<lparr>active_pairs := AList.delete sid (active_pairs pm)\<rparr>"
  unfolding end_session_def by (simp split: option.splits)

lemma set_clients_end_session:
  "set (clients (fst (end_session dead sid pm))) \<subseteq> set (clients pm)"
  using members_delete_subset [of sid "active_pairs pm"] end_session_manager [of dead sid pm]
  by (auto simp: clients_def)

lemma distinct_clients_end_session:
  assumes "distinct (clients pm)"
  shows "distinct (clients (fst (end_session dead sid pm)))"
proof -
  have "set (waiting_users pm) \<inter> set (members (AList.delete sid (active_pairs pm))) = {}"
    using assms members_delete_subset [of sid "active_pairs pm"] by (auto simp: clients_def)
  then have "distinct (clients (pm\<lparr>active_pairs := AList.delete sid (active_pairs pm)\<rparr>))"
    using assms distinct_members_delete [of "active_pairs pm" sid] by (simp add: clients_def)
  with assms end_session_manager [of dead sid pm] show ?thesis by auto
qed

lemma set_clients_remove1:
  "set (clients (pm\<lparr>waiting_users := remove1 u (waiting_users pm)\<rparr>)) \<subseteq> set (clients pm)"
  unfolding clients_def using set_remove1_subset [of u "waiting_users pm"] by auto

lemma distinct_clients_remove1:
  "distinct (clients pm) \<Longrightarrow>
   distinct (clients (pm\<lparr>waiting_users := remove1 u (waiting_users pm)\<rparr>))"
  unfolding clients_def using set_remove1_subset [of u "waiting_users pm"] by auto

lemma on_disconnect_manager:
  "fst (on_disconnect dead u pm) =
     (case find_session u (active_pairs pm) of
        Some sid \<Rightarrow> fst (end_session dead sid pm) | None \<Rightarrow> pm) \<or>
   fst (on_disconnect dead u pm) =
     (case find_session u (active_pairs pm) of
        Some sid \<Rightarrow> fst (end_session dead sid pm) | None \<Rightarrow> pm)
     \<lparr>waiting_users :=
        remove1 u (waiting_users
          (case find_session u (active_pairs pm) of
             Some sid \<Rightarrow> fst (end_session dead sid pm) | None \<Rightarrow> pm))\<rparr>"
  unfolding on_disconnect_def by (simp split: option.splits prod.splits)

lemma set_clients_on_disconnect:
  "set (clients (fst (on_disconnect dead u pm))) \<subseteq> set (clients pm)"
proof -
  define pm1 where "pm1 = (case find_session u (active_pairs pm) of
                   Some sid \<Rightarrow> fst (end_session dead sid pm) | None \<Rightarrow> pm)"
  have "set (clients pm1) \<subseteq> set (clients pm)"
    unfolding pm1_def using set_clients_end_session by (simp split: option.splits)
  moreover have "set (clients (fst (on_disconnect dead u pm))) \<subseteq> set (clients pm1)"
    using on_disconnect_manager [of dead u pm] set_clients_remove1 [of u pm1]
    unfolding pm1_def [symmetric] by auto
  ultimately show ?thesis by blast
qed

lemma distinct_clients_on_disconnect:
  assumes "distinct (clients pm)"
  shows "distinct (clients (fst (on_disconnect dead u pm)))"
proof -
  define pm1 where "pm1 = (case find_session u (active_pairs pm) of
                   Some sid \<Rightarrow> fst (end_session dead sid pm) | None \<Rightarrow> pm)"
  have "distinct (clients pm1)"
    unfolding pm1_def using assms distinct_clients_end_session by (simp split: option.splits)
  then show ?thesis
    using on_disconnect_manager [of dead u pm] distinct_clients_remove1 [of pm1 u]
    unfolding pm1_def [symmetric] by auto
qed

lemma on_message_manager:
  "fst (on_message dead u data pm) = pm \<or>
   (\<exists>sid. fst (on_message dead u data pm) = fst (end_session dead sid pm))"
  unfolding on_message_def
  by (auto split: frame.splits sum.splits option.splits prod.splits)

lemma set_clients_on_message:
  "set (clients (fst (on_message dead u data pm))) \<subseteq> set (clients pm)"
  using on_message_manager [of dead u data pm] set_clients_end_session by fastforce

lemma distinct_clients_on_message:
  "distinct (clients pm) \<Longrightarrow> distinct (clients (fst (on_message dead u data pm)))"
  using on_message_manager [of dead u data pm] distinct_clients_end_session by fastforce

lemma set_clients_add_user:
  "set (clients (fst (add_user dead u pm))) \<subseteq> insert u (set (clients pm))"
proof (cases "waiting_users pm")
  case Nil
  then show ?thesis by (auto simp: add_user_empty clients_def)
next
  case (Cons p rest)
  then show ?thesis
    using members_update_subset [of "username u @ ''-'' @ username p" "[u, p]" "active_pairs pm"]
    by (auto simp: add_user_nonempty clients_def simp del: start_session_loop.simps)
qed

lemma distinct_clients_add_user:
  assumes "distinct (clients pm)" and "u \<notin> set (clients pm)"
  shows "distinct (clients (fst (add_user dead u pm)))"
proof (cases "waiting_users pm")
  case Nil
  then show ?thesis using assms by (auto simp: add_user_empty clients_def)
next
  case (Cons p rest)
  let ?ps = "AList.update (username u @ ''-'' @ username p) [u, p] (active_pairs pm)"
  have sub: "set (members ?ps) \<subseteq> set [u, p] \<union> set (members (active_pairs pm))"
    by (rule members_update_subset)
  have "distinct (members ?ps)"
    using assms Cons by (intro distinct_members_update) (auto simp: clients_def)
  moreover have "set rest \<inter> set (members ?ps) = {}"
    using sub assms Cons by (auto simp: clients_def)
  ultimately show ?thesis
    using assms Cons by (simp add: add_user_nonempty clients_def del: start_session_loop.simps)
qed

section \<open>Reachable states\<close>

lemma on_connect_manager:
  "fst (on_connect dead tok ws pm) = pm \<or>
   (\<exists>n. fst (on_connect dead tok ws pm) =
        fst (add_user dead \<lparr>username = n, websocket = ws\<rparr> pm))"
proof (cases tok)
  case JWTError
  then show ?thesis by (simp add: on_connect_def)
next
  case (Payload sub)
  show ?thesis
  proof (cases sub)
    case None
    with Payload show ?thesis by (simp add: on_connect_def)
  next
    case (Some n)
    with Payload have
      "fst (on_connect dead tok ws pm) =
       fst (add_user dead \<lparr>username = n, websocket = ws\<rparr> pm)"
      by (simp add: on_connect_def Let_def split: prod.splits)
    then show ?thesis by blast
  qed
qed

lemma step_manager:
  "manager (fst (step e s)) = manager s \<and> sockets s \<le> sockets (fst (step e s)) \<or>
   (\<exists>dead n. manager (fst (step e s)) =
          fst (add_user dead \<lparr>username = n, websocket = sockets s\<rparr> (manager s)) \<and>
        sockets (fst (step e s)) = Suc (sockets s)) \<or>
   (\<exists>dead u data. manager (fst (step e s)) = fst (on_message dead u data (manager s)) \<and>
        sockets (fst (step e s)) = sockets s) \<or>
   (\<exists>dead u. manager (fst (step e s)) = fst (on_disconnect dead u (manager s)) \<and>
        sockets (fst (step e s)) = sockets s)"
proof (cases e)
  case (Connect tok)
  then show ?thesis
    using on_connect_manager [of "closed s" tok "sockets s" "manager s"]
    by (auto split: prod.splits)
next
  case (Receive u data)
  then have "manager (fst (step e s)) = manager s \<and> sockets (fst (step e s)) = sockets s \<or>
      manager (fst (step e s)) = fst (on_message (closed s) u data (manager s)) \<and>
      sockets (fst (step e s)) = sockets s"
    by (auto split: prod.splits)
  then show ?thesis by fastforce
next
  case (Disconnect u)
  then have "manager (fst (step e s)) = manager s \<and> sockets (fst (step e s)) = sockets s \<or>
      manager (fst (step e s)) =
        fst (on_disconnect (insert (websocket u) (closed s)) u (manager s)) \<and>
      sockets (fst (step e s)) = sockets s"
    by (auto split: prod.splits)
  then show ?thesis by fastforce
qed

lemma fresh_inv_step:
  assumes "fresh_inv s"
  shows "fresh_inv (fst (step e s))"
proof -
  let ?t = "fst (step e s)"
  let ?cs = "clients (manager s)"
  have d: "distinct ?cs" and i: "inj_on websocket (set ?cs)"
    and b: "\<forall>c \<in> set ?cs. websocket c < sockets s"
    using assms unfolding fresh_inv_def by auto
  have sub_case: "fresh_inv ?t"
    if "distinct (clients (manager ?t))"
      and "set (clients (manager ?t)) \<subseteq> set ?cs"
      and "sockets s \<le> sockets ?t"
  proof -
    have "inj_on websocket (set (clients (manager ?t)))"
      using i that(2) by (rule inj_on_subset)
    moreover have "\<forall>c \<in> set (clients (manager ?t)). websocket c < sockets ?t"
      using b that(2,3) by fastforce
    ultimately show ?thesis using that(1) unfolding fresh_inv_def by simp
  qed
  consider
    (same) "manager ?t = manager s" "sockets s \<le> sockets ?t"
  | (add) dead n where
      "manager ?t = fst (add_user dead \<lparr>username = n, websocket = sockets s\<rparr> (manager s))"
      "sockets ?t = Suc (sockets s)"
  | (msg) dead u data where "manager ?t = fst (on_message dead u data (manager s))"
      "sockets ?t = sockets s"
  | (disc) dead u where "manager ?t = fst (on_disconnect dead u (manager s))"
      "sockets ?t = sockets s"
    using step_manager [of e s] by blast
  then show ?thesis
  proof cases
    case same
    then show ?thesis using d by (intro sub_case) simp_all
  next
    case (add dead n)
    let ?u = "\<lparr>username = n, websocket = sockets s\<rparr>"
    have fresh: "websocket ?u \<notin> websocket ` set ?cs"
      using b by auto
    then have notin: "?u \<notin> set ?cs" by blast
    have sub: "set (clients (manager ?t)) \<subseteq> insert ?u (set ?cs)"
      unfolding add(1) by (rule set_clients_add_user)
    have "distinct (clients (manager ?t))"
      unfolding add(1) using d notin by (rule distinct_clients_add_user)
    moreover have "inj_on websocket (insert ?u (set ?cs))"
      using i fresh by auto
    then have "inj_on websocket (set (clients (manager ?t)))"
      using sub by (rule inj_on_subset)
    moreover have "\<forall>c \<in> set (clients (manager ?t)). websocket c < sockets ?t"
      using sub b add(2) by fastforce
    ultimately show ?thesis unfolding fresh_inv_def by simp
  next
    case (msg dead u data)
    then show ?thesis
      using d set_clients_on_message [of dead u data "manager s"]
        distinct_clients_on_message [of "manager s" dead u data]
      by (intro sub_case) simp_all
  next
    case (disc dead u)
    then show ?thesis
      using d set_clients_on_disconnect [of dead u "manager s"]
        distinct_clients_on_disconnect [of "manager s" dead u]
      by (intro sub_case) simp_all
  qed
qed

lemma fst_run_Cons: "fst (run (e # es) s) = fst (run es (fst (step e s)))"
  by (simp split: prod.splits)

lemma fresh_inv_initial: "fresh_inv initial"
  unfolding fresh_inv_def initial_def clients_def members_def by simp

lemma reachable_fresh_inv: "reachable s \<Longrightarrow> fresh_inv s"
  by (induction rule: reachable.induct) (simp_all add: fresh_inv_initial fresh_inv_step)

text \<open>
  C9. In every state the server reaches from its start by connections, received frames
  and disconnections, no client occurs twice in the waiting list followed by the member
  lists of all registered sessions, and no two of these clients share a connection.
\<close>

theorem clients_held_once:
  "reachable s \<Longrightarrow>
     distinct (clients (manager s)) \<and> distinct (map websocket (clients (manager s)))"
  using reachable_fresh_inv [of s] unfolding fresh_inv_def by (simp add: distinct_map)

theorem clients_held_once_witness:
  "reachable (fst (run connect_a_b_c initial)) \<and>
   clients (manager (fst (run connect_a_b_c initial))) =
     [\<lparr>username = ''c'', websocket = 2\<rparr>, user_b, user_a] \<and>
   distinct (clients (manager (fst (run connect_a_b_c initial)))) \<and>
   distinct (map websocket (clients (manager (fst (run connect_a_b_c initial)))))"
proof -
  have r: "reachable (fst (step (Connect (Payload (Some ''c'')))
             (fst (step (Connect (Payload (Some ''b'')))
               (fst (step (Connect (Payload (Some ''a''))) initial))))))"
    by (intro reachable_step reachable_initial)
  have e: "fst (run connect_a_b_c initial) =
           fst (step (Connect (Payload (Some ''c'')))
             (fst (step (Connect (Payload (Some ''b'')))
               (fst (step (Connect (Payload (Some ''a''))) initial)))))"
    unfolding connect_a_b_c_def by (simp only: fst_run_Cons run.simps(1) fst_conv)
  have c: "clients (manager (fst (run connect_a_b_c initial))) =
           [\<lparr>username = ''c'', websocket = 2\<rparr>, user_b, user_a]"
    by (simp add: connect_a_b_c_def example_defs initial_def on_connect_def add_user_def
        start_session_def clients_def members_def Let_def)
  from r e have "reachable (fst (run connect_a_b_c initial))" by simp
  with clients_held_once [of "fst (run connect_a_b_c initial)"] c show ?thesis by simp
qed

section \<open>Ending a session\<close>

lemma session_in_members:
  "(k, us) \<in> set ps \<Longrightarrow> set us \<subseteq> set (members ps)"
  by (induction ps) (auto simp: members_Cons)

lemma session_distinct:
  "(k, us) \<in> set ps \<Longrightarrow> distinct (members ps) \<Longrightarrow> distinct us"
  by (induction ps) (auto simp: members_Cons)

lemma end_session_loop_sends:
  "end_session_loop dead sid users =
     (map (\<lambda>user. SendJson (websocket user) (session_end_msg sid))
        (takeWhile (\<lambda>user. websocket user \<notin> dead) users),
      if \<forall>user \<in> set users. websocket user \<notin> dead then None else Some RuntimeError)"
  by (induction users) simp_all

lemma end_session_registered:
  "map_of (active_pairs pm) sid = Some users \<Longrightarrow>
   end_session dead sid pm =
     (pm\<lparr>active_pairs := AList.delete sid (active_pairs pm)\<rparr>,
      map (\<lambda>user. SendJson (websocket user) (session_end_msg sid))
        (takeWhile (\<lambda>user. websocket user \<notin> dead) users),
      if \<forall>user \<in> set users. websocket user \<notin> dead then None else Some RuntimeError)"
  unfolding end_session_def by (simp add: end_session_loop_sends)

lemma end_session_unregistered:
  "map_of (active_pairs pm) sid = None \<Longrightarrow> end_session dead sid pm = (pm, [], None)"
  unfolding end_session_def by simp

lemma map_of_delete_same: "map_of (AList.delete k ps) k = None"
  by (simp add: delete_conv')

lemma distinct_map_takeWhile:
  "distinct (map f xs) \<Longrightarrow> distinct (map f (takeWhile P xs))"
  by (induction xs) (auto dest: set_takeWhileD)

lemma count_sends:
  "distinct (map websocket users) \<Longrightarrow>
   length (filter (\<lambda>e. e = SendJson w m) (map (\<lambda>user. SendJson (websocket user) m) users)) \<le> 1"
  by (induction users) (auto simp: filter_empty_conv image_iff)

lemma run_connect_a_b:
  "fst (run connect_a_b initial) =
     \<lparr>manager = pm_paired, sockets = 2, looping = [user_a, user_b], closed = {}\<rparr>"
  by (simp add: connect_a_b_def example_defs initial_def on_connect_def add_user_def
      start_session_def Let_def)

lemma reachable_connect_a_b: "reachable (fst (run connect_a_b initial))"
proof -
  have "reachable (fst (step (Connect (Payload (Some ''b'')))
          (fst (step (Connect (Payload (Some ''a''))) initial))))"
    by (intro reachable_step reachable_initial)
  moreover have "fst (run connect_a_b initial) =
      fst (step (Connect (Payload (Some ''b'')))
        (fst (step (Connect (Payload (Some ''a''))) initial)))"
    unfolding connect_a_b_def by (simp only: fst_run_Cons run.simps(1) fst_conv)
  ultimately show ?thesis by simp
qed

text \<open>
  C4 fails in the code. With \<open>a\<close> and \<open>b\<close> paired, \<open>b\<close> having arrived later, the
  session is registered as the list \<open>b\<close>, \<open>a\<close>. When \<open>b\<close> disconnects, the handler pops
  the session, so the id is absent from the registry afterwards, but the first
  \<open>session_end\<close> goes to the closed connection of \<open>b\<close> itself, the send raises, and
  \<open>a\<close> is sent nothing. When it is \<open>a\<close>, second in the list, that disconnects, \<open>b\<close> is
  sent its \<open>session_end\<close> before the send that raises.
\<close>

theorem disconnect_of_first_member_skips_partner:
  "map_of (active_pairs (manager (fst (run connect_a_b initial)))) ''b-a'' =
     Some [user_b, user_a] \<and>
   user_b \<in> set (looping (fst (run connect_a_b initial))) \<and>
   step (Disconnect user_b) (fst (run connect_a_b initial)) =
     (\<lparr>manager = pm_empty, sockets = 2, looping = [user_a], closed = {websocket user_b}\<rparr>,
      []) \<and>
   snd (step (Disconnect user_a) (fst (run connect_a_b initial))) =
     [SendJson (websocket user_b)
        [(''type'', JStr ''session_end''), (''session_id'', JStr ''b-a'')]]"
  by (simp add: run_connect_a_b example_defs on_disconnect_def end_session_def
      session_end_msg_def)

text \<open>
  C7. Of two calls of \<open>end_session\<close> with one id, made one after the other on a reachable
  state that registers the id, the first removes the session and sends one
  \<open>session_end\<close> to each member in member order, up to the first member whose
  connection is closed, and to every member when none is; the second finds the id gone,
  changes nothing and sends nothing. No connection is sent more than one \<open>session_end\<close>
  for the id by the two calls together. The membership test and the \<open>pop\<close> of
  \<open>end_session\<close> have no \<open>await\<close> between them, so two tasks cannot both pass the test.
\<close>

theorem end_session_single_winner:
  assumes "reachable s"
    and "map_of (active_pairs (manager s)) sid = Some users"
    and "end_session dead sid (manager s) = (pm1, out1, err1)"
    and "end_session dead' sid pm1 = (pm2, out2, err2)"
  shows "out1 = map (\<lambda>u. SendJson (websocket u)
                   [(''type'', JStr ''session_end''), (''session_id'', JStr sid)])
                 (takeWhile (\<lambda>u. websocket u \<notin> dead) users) \<and>
         ((\<forall>u \<in> set users. websocket u \<notin> dead) \<longrightarrow>
            out1 = map (\<lambda>u. SendJson (websocket u)
                     [(''type'', JStr ''session_end''), (''session_id'', JStr sid)]) users \<and>
            err1 = None) \<and>
         map_of (active_pairs pm1) sid = None \<and>
         pm2 = pm1 \<and> out2 = [] \<and> err2 = None \<and>
         (\<forall>w. length (filter (\<lambda>e. e = SendJson w
                   [(''type'', JStr ''session_end''), (''session_id'', JStr sid)])
                 (out1 @ out2)) \<le> 1)"
proof -
  let ?open = "takeWhile (\<lambda>u. websocket u \<notin> dead) users"
  have inv: "distinct (clients (manager s))" "inj_on websocket (set (clients (manager s)))"
    using reachable_fresh_inv [OF assms(1)] unfolding fresh_inv_def by simp_all
  have mem: "(sid, users) \<in> set (active_pairs (manager s))"
    using assms(2) by (rule map_of_SomeD)
  have "distinct users"
    using session_distinct [OF mem] inv(1) by (simp add: clients_def)
  moreover have "set users \<subseteq> set (clients (manager s))"
    using session_in_members [OF mem] by (auto simp: clients_def)
  then have "inj_on websocket (set users)"
    using inv(2) inj_on_subset by blast
  ultimately have "distinct (map websocket users)"
    by (simp add: distinct_map)
  then have dw: "distinct (map websocket ?open)"
    by (rule distinct_map_takeWhile)
  have 1: "pm1 = (manager s)\<lparr>active_pairs := AList.delete sid (active_pairs (manager s))\<rparr>"
    and o1: "out1 = map (\<lambda>user. SendJson (websocket user) (session_end_msg sid)) ?open"
    and e1: "err1 = (if \<forall>u \<in> set users. websocket u \<notin> dead then None else Some RuntimeError)"
    using assms(3) end_session_registered [OF assms(2), of dead] by simp_all
  have all_open: "?open = users" if "\<forall>u \<in> set users. websocket u \<notin> dead"
    using that by (simp add: takeWhile_eq_all_conv)
  have gone: "map_of (active_pairs pm1) sid = None"
    unfolding 1 by (simp add: map_of_delete_same)
  have 2: "pm2 = pm1" "out2 = []" "err2 = None"
    using assms(4) end_session_unregistered [OF gone, of dead'] by simp_all
  have bound: "\<forall>w. length (filter (\<lambda>e. e = SendJson w (session_end_msg sid)) (out1 @ out2)) \<le> 1"
    using o1 2 count_sends [OF dw, of _ "session_end_msg sid"] by simp
  show ?thesis
  proof (intro conjI impI)
    assume "\<forall>u \<in> set users. websocket u \<notin> dead"
    with o1 e1 all_open show
      "out1 = map (\<lambda>u. SendJson (websocket u)
                 [(''type'', JStr ''session_end''), (''session_id'', JStr sid)]) users"
      and "err1 = None"
      by (simp_all add: session_end_msg_def)
  qed (use o1 gone 2 bound in \<open>simp_all add: session_end_msg_def\<close>)
qed

theorem end_session_single_winner_witness:
  "reachable (fst (run connect_a_b initial)) \<and>
   map_of (active_pairs (manager (fst (run connect_a_b initial)))) ''b-a'' =
     Some [user_b, user_a] \<and>
   end_session {} ''b-a'' (manager (fst (run connect_a_b initial))) =
     (pm_empty,
      [SendJson 1 [(''type'', JStr ''session_end''), (''session_id'', JStr ''b-a'')],
       SendJson 0 [(''type'', JStr ''session_end''), (''session_id'', JStr ''b-a'')]],
      None) \<and>
   end_session {} ''b-a'' pm_empty = (pm_empty, [], None) \<and>
   (\<forall>w. length (filter (\<lambda>e. e = SendJson w
             [(''type'', JStr ''session_end''), (''session_id'', JStr ''b-a'')])
           ([SendJson 1 [(''type'', JStr ''session_end''), (''session_id'', JStr ''b-a'')],
             SendJson 0 [(''type'', JStr ''session_end''), (''session_id'', JStr ''b-a'')]]
            @ [])) \<le> 1)"
proof -
  note r = reachable_connect_a_b
  have m: "map_of (active_pairs (manager (fst (run connect_a_b initial)))) ''b-a'' =
           Some [user_b, user_a]"
    by (simp add: run_connect_a_b pm_paired_def)
  have e1: "end_session {} ''b-a'' (manager (fst (run connect_a_b initial))) =
     (pm_empty,
      [SendJson 1 [(''type'', JStr ''session_end''), (''session_id'', JStr ''b-a'')],
       SendJson 0 [(''type'', JStr ''session_end''), (''session_id'', JStr ''b-a'')]],
      None)"
    by (simp add: run_connect_a_b example_defs end_session_def session_end_msg_def)
  have e2: "end_session {} ''b-a'' pm_empty = (pm_empty, [], None)"
    by (simp add: pm_empty_def end_session_def)
  from end_session_single_winner [OF r m e1 e2] r m e1 e2 show ?thesis
    by simp
qed

end
